theory Spec2Isabelle
  imports Main "HOL-Library.Word"
begin

section \<open>The SMTC bridge (smtc\_bridge.cpp) as a state-passing model\<close>

text \<open>
  The bridge is one translation unit of global variables and \<open>extern "C"\<close> functions over
  the C++/WinRT projection of the Windows media transport controls. The model keeps the
  globals in a record, passes it through every function, and makes the three ways a C++
  call can end explicit: it returns, it throws, or it never comes back.
\<close>

subsection \<open>Public enumerations (smtc\_bridge.h)\<close>

text \<open>
  The header's enums are plain C enums: a caller can pass any \<open>int\<close>, and the switch
  statements of the bridge have \<open>default\<close> branches for that. They are integers here.
\<close>

type_synonym SmtcPlaybackStatus = int
type_synonym SmtcButtonType = int
type_synonym SmtcMediaType = int

definition SMTC_PLAYBACK_CLOSED :: SmtcPlaybackStatus where "SMTC_PLAYBACK_CLOSED = 0"
definition SMTC_PLAYBACK_STOPPED :: SmtcPlaybackStatus where "SMTC_PLAYBACK_STOPPED = 1"
definition SMTC_PLAYBACK_PLAYING :: SmtcPlaybackStatus where "SMTC_PLAYBACK_PLAYING = 2"
definition SMTC_PLAYBACK_PAUSED :: SmtcPlaybackStatus where "SMTC_PLAYBACK_PAUSED = 3"
definition SMTC_PLAYBACK_CHANGING :: SmtcPlaybackStatus where "SMTC_PLAYBACK_CHANGING = 4"

definition SMTC_BUTTON_PLAY :: SmtcButtonType where "SMTC_BUTTON_PLAY = 0"
definition SMTC_BUTTON_PAUSE :: SmtcButtonType where "SMTC_BUTTON_PAUSE = 1"
definition SMTC_BUTTON_STOP :: SmtcButtonType where "SMTC_BUTTON_STOP = 2"
definition SMTC_BUTTON_RECORD :: SmtcButtonType where "SMTC_BUTTON_RECORD = 3"
definition SMTC_BUTTON_FAST_FORWARD :: SmtcButtonType where "SMTC_BUTTON_FAST_FORWARD = 4"
definition SMTC_BUTTON_REWIND :: SmtcButtonType where "SMTC_BUTTON_REWIND = 5"
definition SMTC_BUTTON_NEXT :: SmtcButtonType where "SMTC_BUTTON_NEXT = 6"
definition SMTC_BUTTON_PREVIOUS :: SmtcButtonType where "SMTC_BUTTON_PREVIOUS = 7"
definition SMTC_BUTTON_CHANNEL_UP :: SmtcButtonType where "SMTC_BUTTON_CHANNEL_UP = 8"
definition SMTC_BUTTON_CHANNEL_DOWN :: SmtcButtonType where "SMTC_BUTTON_CHANNEL_DOWN = 9"

definition SMTC_MEDIA_UNKNOWN :: SmtcMediaType where "SMTC_MEDIA_UNKNOWN = 0"
definition SMTC_MEDIA_MUSIC :: SmtcMediaType where "SMTC_MEDIA_MUSIC = 1"
definition SMTC_MEDIA_VIDEO :: SmtcMediaType where "SMTC_MEDIA_VIDEO = 2"
definition SMTC_MEDIA_IMAGE :: SmtcMediaType where "SMTC_MEDIA_IMAGE = 3"

subsection \<open>The native objects the globals refer to\<close>

text \<open>
  The WinRT types are declared by the Windows SDK, not by this repository. Each is modelled
  by the properties the bridge reads or writes. The native enumerations carry the
  enumerators the bridge names, and one more constructor for every other value, which is
  what reaches the \<open>default\<close> branch of a switch over them.
\<close>

type_synonym wstring = "16 word list" \<comment> \<open>\<open>const wchar_t*\<close> text, UTF-16 code units\<close>
type_synonym TimeSpan = "64 word" \<comment> \<open>a count of 100 ns ticks in an \<open>int64_t\<close>; \<open>sint\<close> reads it\<close>
type_synonym event_token = nat
type_synonym fnptr = nat \<comment> \<open>the address of a callback; \<open>nullptr\<close> is \<open>None\<close>\<close>

datatype MediaPlaybackType = Type_Unknown | Type_Music | Type_Video | Type_Image

datatype MediaPlaybackStatus =
  Status_Closed | Status_Stopped | Status_Playing | Status_Paused | Status_Changing
  | Status_Other int

datatype SystemMediaTransportControlsButton =
  Button_Play | Button_Pause | Button_Stop | Button_Next | Button_Previous
  | Button_FastForward | Button_Rewind
  | Button_Other int \<comment> \<open>Record, ChannelUp, ChannelDown and any identifier not listed\<close>

datatype RandomAccessStreamReference =
  CreateFromUri wstring | CreateFromStream "8 word list"

record MusicDisplayProperties =
  Title :: wstring
  Artist :: wstring
  AlbumTitle :: wstring

record DisplayUpdater =
  du_Type :: MediaPlaybackType
  du_MusicProperties :: MusicDisplayProperties
  du_Thumbnail :: "RandomAccessStreamReference option"
  du_Updates :: nat \<comment> \<open>how many times \<open>Update()\<close> has flushed the staged values\<close>

record TimelineProperties =
  StartTime :: TimeSpan
  EndTime :: TimeSpan
  Position :: TimeSpan
  MinSeekTime :: TimeSpan
  MaxSeekTime :: TimeSpan

record TransportControls =
  IsPlayEnabled :: bool
  IsPauseEnabled :: bool
  IsStopEnabled :: bool
  IsNextEnabled :: bool
  IsPreviousEnabled :: bool
  IsFastForwardEnabled :: bool
  IsRewindEnabled :: bool
  IsEnabled :: bool
  PlaybackStatus :: MediaPlaybackStatus
  Timeline :: "TimelineProperties option" \<comment> \<open>last value of \<open>UpdateTimelineProperties\<close>\<close>
  ButtonPressed :: "event_token list" \<comment> \<open>tokens of the registered handlers\<close>

record MediaPlayer =
  CommandManager_IsEnabled :: bool
  mp_Closed :: bool

subsection \<open>Global state\<close>

record state =
  g_mutex :: bool \<comment> \<open>\<open>True\<close> while the calling thread owns \<open>g_mutex\<close>\<close>
  g_initialized :: bool
  g_comInitialized :: bool
  g_mediaPlayer :: "MediaPlayer option"
  g_smtc :: "TransportControls option"
  g_displayUpdater :: "DisplayUpdater option"
  g_lastError :: string
  g_buttonCallback :: "fnptr option"
  g_positionCallback :: "fnptr option"
  g_buttonPressedToken :: event_token

text \<open>The values of the static initialisers (lines 31 to 44).\<close>

definition initial_state :: state where
  "initial_state =
     \<lparr> g_mutex = False, g_initialized = False, g_comInitialized = False,
       g_mediaPlayer = None, g_smtc = None, g_displayUpdater = None,
       g_lastError = [], g_buttonCallback = None, g_positionCallback = None,
       g_buttonPressedToken = 0 \<rparr>"

subsection \<open>How a call ends\<close>

text \<open>
  \<open>winrt::hresult_error\<close> does not derive from \<open>std::exception\<close>; the handlers of the
  bridge tell the two apart, and \<open>catch (...)\<close> takes anything.
\<close>

datatype exn = hresult_error string | std_exception string | other_exception

text \<open>
  \<open>Blocked\<close> is the call that never comes back: the thread waits for a lock that only
  itself could release.
\<close>

datatype 'a res = Return 'a state | Throw exn state | Blocked

fun and_then :: "'a res \<Rightarrow> ('a \<Rightarrow> state \<Rightarrow> 'b res) \<Rightarrow> 'b res" where
  "and_then (Return v s) f = f v s"
| "and_then (Throw e s) f = Throw e s"
| "and_then Blocked f = Blocked"

fun seq :: "(state \<Rightarrow> unit res) list \<Rightarrow> state \<Rightarrow> unit res" where
  "seq [] s = Return () s"
| "seq (m # ms) s = and_then (m s) (\<lambda>_. seq ms)"

fun catch :: "'a res \<Rightarrow> (exn \<Rightarrow> state \<Rightarrow> 'a res) \<Rightarrow> 'a res" where
  "catch (Return v s) h = Return v s"
| "catch (Throw e s) h = h e s"
| "catch Blocked h = Blocked"

text \<open>
  \<open>std::lock_guard<std::mutex> lock(g_mutex)\<close>: acquire on entry, release when the scope
  is left, by return or by exception. \<open>std::mutex\<close> is not recursive. A thread that locks
  it again while owning it has no defined behaviour in C++; what implementations do is
  wait forever, or throw \<open>std::system_error\<close> from \<open>lock()\<close>. The model takes the first.
  Under the second the error recording below fails as well: the exception leaves
  \<open>SetError\<close> before the assignment, and a handler that calls \<open>SetError\<close> throws again.
\<close>

definition lock_guard :: "(state \<Rightarrow> 'a res) \<Rightarrow> state \<Rightarrow> 'a res" where
  "lock_guard body s =
     (if g_mutex s then Blocked
      else case body (s\<lparr>g_mutex := True\<rparr>) of
             Return v s' \<Rightarrow> Return v (s'\<lparr>g_mutex := False\<rparr>)
           | Throw e s' \<Rightarrow> Throw e (s'\<lparr>g_mutex := False\<rparr>)
           | Blocked \<Rightarrow> Blocked)"

text \<open>Lines 48 to 56, both overloads: lock, then assign.\<close>

definition SetError :: "string \<Rightarrow> state \<Rightarrow> unit res" where
  "SetError error = lock_guard (\<lambda>s. Return () (s\<lparr>g_lastError := error\<rparr>))"

subsection \<open>The native layer\<close>

text \<open>
  Every call into the projection can throw. Which calls do, and what the operating system
  hands out, is the environment of one call of the bridge.
\<close>

datatype native_call =
  MediaPlayer_new | MediaPlayer_CommandManager | CommandManager_IsEnabled_put
  | MediaPlayer_SystemMediaTransportControls | MediaPlayer_Close
  | IsPlayEnabled_put | IsPauseEnabled_put | IsStopEnabled_put | IsNextEnabled_put
  | IsPreviousEnabled_put | IsFastForwardEnabled_put | IsRewindEnabled_put
  | IsPlayEnabled_get | IsPauseEnabled_get | IsStopEnabled_get | IsNextEnabled_get
  | IsPreviousEnabled_get | IsFastForwardEnabled_get | IsRewindEnabled_get
  | IsEnabled_put | PlaybackStatus_put | PlaybackStatus_get
  | ButtonPressed_add | ButtonPressed_remove
  | TimelineProperties_new | StartTime_put | EndTime_put | Position_put
  | MinSeekTime_put | MaxSeekTime_put | UpdateTimelineProperties
  | Smtc_DisplayUpdater | Type_put | MusicProperties_get | Title_put | Artist_put
  | AlbumTitle_put | Thumbnail_put | Update
  | Uri_new | RandomAccessStreamReference_CreateFromUri
  | InMemoryRandomAccessStream_new | DataWriter_new | WriteBytes | StoreAsync_get
  | DetachStream | Seek | RandomAccessStreamReference_CreateFromStream

type_synonym HRESULT = int

record native_env =
  throws :: "native_call \<Rightarrow> exn option"
  CoInitializeEx :: HRESULT
  new_MediaPlayer :: MediaPlayer
  new_smtc :: "TransportControls option" \<comment> \<open>\<open>None\<close>: the player hands out a null object\<close>
  new_DisplayUpdater :: DisplayUpdater \<comment> \<open>used unchecked at line 103: taken not to be null\<close>
  new_token :: event_token

text \<open>The Windows SDK's \<open>SUCCEEDED\<close>, \<open>S_FALSE\<close> and \<open>RPC_E_CHANGED_MODE\<close> (0x80010106).\<close>

definition SUCCEEDED :: "HRESULT \<Rightarrow> bool" where "SUCCEEDED hr = (0 \<le> hr)"
definition S_FALSE :: HRESULT where "S_FALSE = 1"
definition RPC_E_CHANGED_MODE :: HRESULT where "RPC_E_CHANGED_MODE = - 2147417850"

text \<open>One native call: it throws what the environment says, or has its effect.\<close>

definition native :: "native_env \<Rightarrow> native_call \<Rightarrow> (state \<Rightarrow> state) \<Rightarrow> state \<Rightarrow> unit res" where
  "native env c effect s =
     (case throws env c of None \<Rightarrow> Return () (effect s) | Some e \<Rightarrow> Throw e s)"

definition on_smtc :: "(TransportControls \<Rightarrow> TransportControls) \<Rightarrow> state \<Rightarrow> state" where
  "on_smtc f s = s\<lparr>g_smtc := map_option f (g_smtc s)\<rparr>"

definition on_updater :: "(DisplayUpdater \<Rightarrow> DisplayUpdater) \<Rightarrow> state \<Rightarrow> state" where
  "on_updater f s = s\<lparr>g_displayUpdater := map_option f (g_displayUpdater s)\<rparr>"

definition on_player :: "(MediaPlayer \<Rightarrow> MediaPlayer) \<Rightarrow> state \<Rightarrow> state" where
  "on_player f s = s\<lparr>g_mediaPlayer := map_option f (g_mediaPlayer s)\<rparr>"

text \<open>
  The handler every setter ends with:
  \<open>catch (const winrt::hresult_error& ex) { SetError("WinRT error: " + ...); return -2; }\<close>.
  Any other exception is not caught there and leaves the function.
\<close>

definition catch_hresult :: "exn \<Rightarrow> state \<Rightarrow> int res" where
  "catch_hresult e s =
     (case e of
        hresult_error msg \<Rightarrow>
          and_then (SetError (''WinRT error: '' @ msg) s) (\<lambda>_. Return (- 2))
      | _ \<Rightarrow> Throw e s)"

text \<open>The guard every setter starts with: \<open>SetError("Not initialized"); return -1;\<close>.\<close>

definition not_initialized :: "state \<Rightarrow> int res" where
  "not_initialized s = and_then (SetError ''Not initialized'' s) (\<lambda>_. Return (- 1))"

subsection \<open>Initialisation and shutdown\<close>

text \<open>
  Lines 70 to 81. \<open>Some rc\<close> is the early \<open>return rc\<close>; \<open>None\<close> goes on with the next
  statement.
\<close>

definition init_com :: "native_env \<Rightarrow> state \<Rightarrow> int option res" where
  "init_com env s =
     (let hr = CoInitializeEx env in
      if SUCCEEDED hr then Return None (s\<lparr>g_comInitialized := True\<rparr>)
      else if hr = RPC_E_CHANGED_MODE then Return None (s\<lparr>g_comInitialized := False\<rparr>)
      else if hr \<noteq> S_FALSE then
        and_then (SetError ''Failed to initialize COM'' s) (\<lambda>_. Return (Some (- 1)))
      else Return None s)"

text \<open>Lines 84 to 92.\<close>

definition init_player :: "native_env \<Rightarrow> state \<Rightarrow> int option res" where
  "init_player env s =
     and_then
       (seq [native env MediaPlayer_new (\<lambda>s. s\<lparr>g_mediaPlayer := Some (new_MediaPlayer env)\<rparr>),
             native env MediaPlayer_CommandManager id,
             native env CommandManager_IsEnabled_put
               (on_player (\<lambda>p. p\<lparr>CommandManager_IsEnabled := False\<rparr>)),
             native env MediaPlayer_SystemMediaTransportControls
               (\<lambda>s. s\<lparr>g_smtc := new_smtc env\<rparr>)] s)
       (\<lambda>_ s. if g_smtc s = None then
                 and_then (SetError ''Failed to get SystemMediaTransportControls'' s)
                   (\<lambda>_. Return (Some (- 1)))
               else Return None s)"

text \<open>Lines 95 to 146.\<close>

definition init_controls :: "native_env \<Rightarrow> state \<Rightarrow> int res" where
  "init_controls env s =
     and_then
       (seq [native env IsPlayEnabled_put (on_smtc (\<lambda>c. c\<lparr>IsPlayEnabled := True\<rparr>)),
             native env IsPauseEnabled_put (on_smtc (\<lambda>c. c\<lparr>IsPauseEnabled := True\<rparr>)),
             native env IsNextEnabled_put (on_smtc (\<lambda>c. c\<lparr>IsNextEnabled := True\<rparr>)),
             native env IsPreviousEnabled_put (on_smtc (\<lambda>c. c\<lparr>IsPreviousEnabled := True\<rparr>)),
             native env IsStopEnabled_put (on_smtc (\<lambda>c. c\<lparr>IsStopEnabled := False\<rparr>)),
             native env Smtc_DisplayUpdater
               (\<lambda>s. s\<lparr>g_displayUpdater := Some (new_DisplayUpdater env)\<rparr>),
             native env Type_put (on_updater (\<lambda>d. d\<lparr>du_Type := Type_Music\<rparr>)),
             native env ButtonPressed_add
               (\<lambda>s. on_smtc (\<lambda>c. c\<lparr>ButtonPressed := ButtonPressed c @ [new_token env]\<rparr>)
                       (s\<lparr>g_buttonPressedToken := new_token env\<rparr>)),
             native env IsEnabled_put (on_smtc (\<lambda>c. c\<lparr>IsEnabled := True\<rparr>))] s)
       (\<lambda>_ s. Return 0 (s\<lparr>g_initialized := True, g_lastError := []\<rparr>))"

text \<open>The two handlers of \<open>SmtcInitialize\<close> (lines 148 to 155).\<close>

definition catch_init :: "exn \<Rightarrow> state \<Rightarrow> int res" where
  "catch_init e s =
     (case e of
        hresult_error msg \<Rightarrow>
          and_then (SetError (''WinRT error: '' @ msg) s) (\<lambda>_. Return (- 2))
      | std_exception what \<Rightarrow>
          and_then (SetError (''Exception: '' @ what) s) (\<lambda>_. Return (- 3))
      | other_exception \<Rightarrow> Throw e s)"

definition SmtcInitialize :: "native_env \<Rightarrow> state \<Rightarrow> int res" where
  "SmtcInitialize env =
     lock_guard (\<lambda>s.
       if g_initialized s then Return 0 s
       else
         catch
           (and_then (init_com env s) (\<lambda>r s.
              case r of Some rc \<Rightarrow> Return rc s
              | None \<Rightarrow>
                  and_then (init_player env s) (\<lambda>r s.
                    case r of Some rc \<Rightarrow> Return rc s
                    | None \<Rightarrow> init_controls env s)))
           catch_init)"

text \<open>
  \<open>try { ... } catch (...) {}\<close>: whatever the block throws is dropped, the effects it had
  before throwing stay. In \<open>SmtcShutdown\<close> below, \<open>CoUninitialize()\<close> has no effect on
  the globals; what is left of lines 199 to 202 is the reset of \<open>g_comInitialized\<close>.
\<close>

definition swallow :: "unit res \<Rightarrow> unit res" where
  "swallow r = catch r (\<lambda>e s. Return () s)"

definition SmtcShutdown :: "native_env \<Rightarrow> state \<Rightarrow> unit res" where
  "SmtcShutdown env =
     lock_guard (\<lambda>s.
       if \<not> g_initialized s then Return () s
       else
         swallow
           (seq [(\<lambda>s. if g_smtc s \<noteq> None then
                        seq [(\<lambda>s. swallow (native env ButtonPressed_remove
                                 (on_smtc (\<lambda>c. c\<lparr>ButtonPressed :=
                                     removeAll (g_buttonPressedToken s) (ButtonPressed c)\<rparr>)) s)),
                             (\<lambda>s. swallow (native env IsEnabled_put
                                 (on_smtc (\<lambda>c. c\<lparr>IsEnabled := False\<rparr>)) s))] s
                      else Return () s),
                 (\<lambda>s. swallow (Return () (s\<lparr>g_displayUpdater := None\<rparr>))),
                 (\<lambda>s. swallow (Return () (s\<lparr>g_smtc := None\<rparr>))),
                 (\<lambda>s. swallow
                    (seq [(\<lambda>s. if g_mediaPlayer s \<noteq> None then
                                 native env MediaPlayer_Close
                                   (on_player (\<lambda>p. p\<lparr>mp_Closed := True\<rparr>)) s
                               else Return () s),
                          (\<lambda>s. Return () (s\<lparr>g_mediaPlayer := None\<rparr>))] s)),
                 (\<lambda>s. Return () (s\<lparr>g_buttonCallback := None, g_positionCallback := None,
                                   g_initialized := False\<rparr>)),
                 (\<lambda>s. if g_comInitialized s then Return () (s\<lparr>g_comInitialized := False\<rparr>)
                      else Return () s)] s))"

definition SmtcIsInitialized :: "state \<Rightarrow> int res" where
  "SmtcIsInitialized = lock_guard (\<lambda>s. Return (if g_initialized s then 1 else 0) s)"

subsection \<open>Media information\<close>

definition SmtcSetMediaType :: "native_env \<Rightarrow> SmtcMediaType \<Rightarrow> state \<Rightarrow> int res" where
  "SmtcSetMediaType env mediaType =
     lock_guard (\<lambda>s.
       if \<not> g_initialized s \<or> g_displayUpdater s = None then not_initialized s
       else
         catch
           (let type = (if mediaType = SMTC_MEDIA_MUSIC then Type_Music
                        else if mediaType = SMTC_MEDIA_VIDEO then Type_Video
                        else if mediaType = SMTC_MEDIA_IMAGE then Type_Image
                        else Type_Unknown)
            in and_then (native env Type_put (on_updater (\<lambda>d. d\<lparr>du_Type := type\<rparr>)) s)
                 (\<lambda>_. Return 0))
           catch_hresult)"

text \<open>
  A null pointer argument is \<open>None\<close>. \<open>musicProps\<close> refers to the properties object of the
  display updater, so a write through it is a write to the updater.
\<close>

definition SmtcSetMusicInfo ::
  "native_env \<Rightarrow> wstring option \<Rightarrow> wstring option \<Rightarrow> wstring option \<Rightarrow> state \<Rightarrow> int res" where
  "SmtcSetMusicInfo env title artist album =
     lock_guard (\<lambda>s.
       if \<not> g_initialized s \<or> g_displayUpdater s = None then not_initialized s
       else
         catch
           (and_then
              (seq [native env MusicProperties_get id,
                    (\<lambda>s. case title of None \<Rightarrow> Return () s
                         | Some t \<Rightarrow> native env Title_put (on_updater (\<lambda>d.
                             d\<lparr>du_MusicProperties := (du_MusicProperties d)\<lparr>Title := t\<rparr>\<rparr>)) s),
                    (\<lambda>s. case artist of None \<Rightarrow> Return () s
                         | Some a \<Rightarrow> native env Artist_put (on_updater (\<lambda>d.
                             d\<lparr>du_MusicProperties := (du_MusicProperties d)\<lparr>Artist := a\<rparr>\<rparr>)) s),
                    (\<lambda>s. case album of None \<Rightarrow> Return () s
                         | Some a \<Rightarrow> native env AlbumTitle_put (on_updater (\<lambda>d.
                             d\<lparr>du_MusicProperties := (du_MusicProperties d)\<lparr>AlbumTitle := a\<rparr>\<rparr>)) s)]
                 s)
              (\<lambda>_. Return 0))
           catch_hresult)"

definition SmtcSetThumbnailFromFile :: "native_env \<Rightarrow> wstring option \<Rightarrow> state \<Rightarrow> int res" where
  "SmtcSetThumbnailFromFile env filePath =
     lock_guard (\<lambda>s.
       if \<not> g_initialized s \<or> g_displayUpdater s = None then not_initialized s
       else
         catch
           (and_then
              (case filePath of
                 Some path \<Rightarrow>
                   seq [native env Uri_new id,
                        native env RandomAccessStreamReference_CreateFromUri id,
                        native env Thumbnail_put
                          (on_updater (\<lambda>d. d\<lparr>du_Thumbnail := Some (CreateFromUri path)\<rparr>))] s
               | None \<Rightarrow>
                   native env Thumbnail_put (on_updater (\<lambda>d. d\<lparr>du_Thumbnail := None\<rparr>)) s)
              (\<lambda>_. Return 0))
           catch_hresult)"

text \<open>
  \<open>data\<close> is the buffer the pointer refers to, \<open>None\<close> for a null pointer; the bytes
  written are the first \<open>dataSize\<close> of it. \<open>mimeType\<close> is not read.
\<close>

definition SmtcSetThumbnailFromMemory ::
  "native_env \<Rightarrow> 8 word list option \<Rightarrow> 32 word \<Rightarrow> string option \<Rightarrow> state \<Rightarrow> int res" where
  "SmtcSetThumbnailFromMemory env data dataSize mimeType =
     lock_guard (\<lambda>s.
       if \<not> g_initialized s \<or> g_displayUpdater s = None then not_initialized s
       else
         catch
           (and_then
              (if data \<noteq> None \<and> 0 < dataSize then
                 seq [native env InMemoryRandomAccessStream_new id,
                      native env DataWriter_new id,
                      native env WriteBytes id,
                      native env StoreAsync_get id,
                      native env DetachStream id,
                      native env Seek id,
                      native env RandomAccessStreamReference_CreateFromStream id,
                      native env Thumbnail_put
                        (on_updater (\<lambda>d. d\<lparr>du_Thumbnail :=
                           Some (CreateFromStream (take (unat dataSize) (the data)))\<rparr>))] s
               else
                 native env Thumbnail_put (on_updater (\<lambda>d. d\<lparr>du_Thumbnail := None\<rparr>)) s)
              (\<lambda>_. Return 0))
           catch_hresult)"

definition SmtcClearThumbnail :: "native_env \<Rightarrow> state \<Rightarrow> int res" where
  "SmtcClearThumbnail env =
     lock_guard (\<lambda>s.
       if \<not> g_initialized s \<or> g_displayUpdater s = None then not_initialized s
       else
         catch
           (and_then
              (native env Thumbnail_put (on_updater (\<lambda>d. d\<lparr>du_Thumbnail := None\<rparr>)) s)
              (\<lambda>_. Return 0))
           catch_hresult)"

definition SmtcUpdateDisplay :: "native_env \<Rightarrow> state \<Rightarrow> int res" where
  "SmtcUpdateDisplay env =
     lock_guard (\<lambda>s.
       if \<not> g_initialized s \<or> g_displayUpdater s = None then not_initialized s
       else
         catch
           (and_then
              (native env Update (on_updater (\<lambda>d. d\<lparr>du_Updates := Suc (du_Updates d)\<rparr>)) s)
              (\<lambda>_. Return 0))
           catch_hresult)"

subsection \<open>Playback status\<close>

definition SmtcSetPlaybackStatus :: "native_env \<Rightarrow> SmtcPlaybackStatus \<Rightarrow> state \<Rightarrow> int res" where
  "SmtcSetPlaybackStatus env status =
     lock_guard (\<lambda>s.
       if \<not> g_initialized s \<or> g_smtc s = None then not_initialized s
       else
         catch
           (let mpStatus = (if status = SMTC_PLAYBACK_CLOSED then Status_Closed
                            else if status = SMTC_PLAYBACK_STOPPED then Status_Stopped
                            else if status = SMTC_PLAYBACK_PLAYING then Status_Playing
                            else if status = SMTC_PLAYBACK_PAUSED then Status_Paused
                            else if status = SMTC_PLAYBACK_CHANGING then Status_Changing
                            else Status_Stopped)
            in and_then
                 (native env PlaybackStatus_put (on_smtc (\<lambda>c. c\<lparr>PlaybackStatus := mpStatus\<rparr>)) s)
                 (\<lambda>_. Return 0))
           catch_hresult)"

definition SmtcGetPlaybackStatus :: "native_env \<Rightarrow> state \<Rightarrow> SmtcPlaybackStatus res" where
  "SmtcGetPlaybackStatus env =
     lock_guard (\<lambda>s.
       if \<not> g_initialized s \<or> g_smtc s = None then Return SMTC_PLAYBACK_CLOSED s
       else
         catch
           (and_then (native env PlaybackStatus_get id s)
              (\<lambda>_ s. Return
                 (case PlaybackStatus (the (g_smtc s)) of
                    Status_Closed \<Rightarrow> SMTC_PLAYBACK_CLOSED
                  | Status_Stopped \<Rightarrow> SMTC_PLAYBACK_STOPPED
                  | Status_Playing \<Rightarrow> SMTC_PLAYBACK_PLAYING
                  | Status_Paused \<Rightarrow> SMTC_PLAYBACK_PAUSED
                  | Status_Changing \<Rightarrow> SMTC_PLAYBACK_CHANGING
                  | Status_Other _ \<Rightarrow> SMTC_PLAYBACK_STOPPED) s))
           (\<lambda>e s. Return SMTC_PLAYBACK_CLOSED s))"

subsection \<open>Button enablement\<close>

definition SmtcSetButtonEnabled :: "native_env \<Rightarrow> SmtcButtonType \<Rightarrow> int \<Rightarrow> state \<Rightarrow> int res" where
  "SmtcSetButtonEnabled env buttonType enabled =
     lock_guard (\<lambda>s.
       if \<not> g_initialized s \<or> g_smtc s = None then not_initialized s
       else
         catch
           (let isEnabled = (enabled \<noteq> 0) in
            if buttonType = SMTC_BUTTON_PLAY then
              and_then (native env IsPlayEnabled_put
                (on_smtc (\<lambda>c. c\<lparr>IsPlayEnabled := isEnabled\<rparr>)) s) (\<lambda>_. Return 0)
            else if buttonType = SMTC_BUTTON_PAUSE then
              and_then (native env IsPauseEnabled_put
                (on_smtc (\<lambda>c. c\<lparr>IsPauseEnabled := isEnabled\<rparr>)) s) (\<lambda>_. Return 0)
            else if buttonType = SMTC_BUTTON_STOP then
              and_then (native env IsStopEnabled_put
                (on_smtc (\<lambda>c. c\<lparr>IsStopEnabled := isEnabled\<rparr>)) s) (\<lambda>_. Return 0)
            else if buttonType = SMTC_BUTTON_NEXT then
              and_then (native env IsNextEnabled_put
                (on_smtc (\<lambda>c. c\<lparr>IsNextEnabled := isEnabled\<rparr>)) s) (\<lambda>_. Return 0)
            else if buttonType = SMTC_BUTTON_PREVIOUS then
              and_then (native env IsPreviousEnabled_put
                (on_smtc (\<lambda>c. c\<lparr>IsPreviousEnabled := isEnabled\<rparr>)) s) (\<lambda>_. Return 0)
            else if buttonType = SMTC_BUTTON_FAST_FORWARD then
              and_then (native env IsFastForwardEnabled_put
                (on_smtc (\<lambda>c. c\<lparr>IsFastForwardEnabled := isEnabled\<rparr>)) s) (\<lambda>_. Return 0)
            else if buttonType = SMTC_BUTTON_REWIND then
              and_then (native env IsRewindEnabled_put
                (on_smtc (\<lambda>c. c\<lparr>IsRewindEnabled := isEnabled\<rparr>)) s) (\<lambda>_. Return 0)
            else
              and_then (SetError ''Unknown button type'' s) (\<lambda>_. Return (- 1)))
           catch_hresult)"

text \<open>One \<open>return g_smtc.IsXEnabled() ? 1 : 0;\<close> of the switch below.\<close>

definition read_flag ::
  "native_env \<Rightarrow> native_call \<Rightarrow> (TransportControls \<Rightarrow> bool) \<Rightarrow> state \<Rightarrow> int res" where
  "read_flag env c flag s =
     and_then (native env c id s)
       (\<lambda>_ s. Return (if flag (the (g_smtc s)) then 1 else 0) s)"

definition SmtcIsButtonEnabled :: "native_env \<Rightarrow> SmtcButtonType \<Rightarrow> state \<Rightarrow> int res" where
  "SmtcIsButtonEnabled env buttonType =
     lock_guard (\<lambda>s.
       if \<not> g_initialized s \<or> g_smtc s = None then Return 0 s
       else
         catch
           (if buttonType = SMTC_BUTTON_PLAY then read_flag env IsPlayEnabled_get IsPlayEnabled s
            else if buttonType = SMTC_BUTTON_PAUSE then
              read_flag env IsPauseEnabled_get IsPauseEnabled s
            else if buttonType = SMTC_BUTTON_STOP then
              read_flag env IsStopEnabled_get IsStopEnabled s
            else if buttonType = SMTC_BUTTON_NEXT then
              read_flag env IsNextEnabled_get IsNextEnabled s
            else if buttonType = SMTC_BUTTON_PREVIOUS then
              read_flag env IsPreviousEnabled_get IsPreviousEnabled s
            else if buttonType = SMTC_BUTTON_FAST_FORWARD then
              read_flag env IsFastForwardEnabled_get IsFastForwardEnabled s
            else if buttonType = SMTC_BUTTON_REWIND then
              read_flag env IsRewindEnabled_get IsRewindEnabled s
            else Return 0 s)
           (\<lambda>e s. Return 0 s))"

subsection \<open>Timeline\<close>

text \<open>
  The setters of the timeline take a \<open>TimeSpan\<close>, a duration counted in ticks of 100 ns
  in an \<open>int64_t\<close>. Lines 533 to 537 pass \<open>std::chrono::milliseconds(x)\<close>, so each call
  site converts: the count is multiplied by 10000 in 64 bits. The product leaves the
  range of \<open>int64_t\<close> once \<open>x\<close> is beyond 922337203685477 in absolute value; C++ leaves
  that overflow undefined, and the model takes the two's-complement result.
\<close>

definition to_TimeSpan :: "64 word \<Rightarrow> TimeSpan" where
  "to_TimeSpan ms = ms * 10000"

text \<open>
  \<open>timeline\<close> is a local object, default-constructed and filled by five setters, then
  handed to the controls.
\<close>

definition SmtcSetTimelineProperties ::
  "native_env \<Rightarrow> 64 word \<Rightarrow> 64 word \<Rightarrow> 64 word \<Rightarrow> state \<Rightarrow> int res" where
  "SmtcSetTimelineProperties env startTimeMs endTimeMs positionMs =
     lock_guard (\<lambda>s.
       if \<not> g_initialized s \<or> g_smtc s = None then not_initialized s
       else
         catch
           (let timeline =
                  \<lparr>StartTime = 0, EndTime = 0, Position = 0, MinSeekTime = 0, MaxSeekTime = 0\<rparr>
                  \<lparr>StartTime := to_TimeSpan startTimeMs\<rparr>
                  \<lparr>EndTime := to_TimeSpan endTimeMs\<rparr>
                  \<lparr>Position := to_TimeSpan positionMs\<rparr>
                  \<lparr>MinSeekTime := to_TimeSpan startTimeMs\<rparr>
                  \<lparr>MaxSeekTime := to_TimeSpan endTimeMs\<rparr>
            in and_then
                 (seq [native env TimelineProperties_new id,
                       native env StartTime_put id,
                       native env EndTime_put id,
                       native env Position_put id,
                       native env MinSeekTime_put id,
                       native env MaxSeekTime_put id,
                       native env UpdateTimelineProperties
                         (on_smtc (\<lambda>c. c\<lparr>Timeline := Some timeline\<rparr>))] s)
                 (\<lambda>_. Return 0))
           catch_hresult)"

subsection \<open>Callbacks\<close>

definition SmtcSetButtonPressedCallback :: "fnptr option \<Rightarrow> state \<Rightarrow> unit res" where
  "SmtcSetButtonPressedCallback callback =
     lock_guard (\<lambda>s. Return () (s\<lparr>g_buttonCallback := callback\<rparr>))"

definition SmtcSetPositionChangeRequestedCallback :: "fnptr option \<Rightarrow> state \<Rightarrow> unit res" where
  "SmtcSetPositionChangeRequestedCallback callback =
     lock_guard (\<lambda>s. Return () (s\<lparr>g_positionCallback := callback\<rparr>))"

text \<open>
  The lambda registered at line 106. It runs on the thread of the operating system, takes
  no lock, and its result here is the list of calls it makes: the function called and the
  argument passed.
\<close>

definition ButtonPressed_handler ::
  "SystemMediaTransportControlsButton \<Rightarrow> state \<Rightarrow> (fnptr \<times> SmtcButtonType) list res" where
  "ButtonPressed_handler button s =
     (case g_buttonCallback s of
        None \<Rightarrow> Return [] s
      | Some callback \<Rightarrow>
          (case button of
             Button_Play \<Rightarrow> Return [(callback, SMTC_BUTTON_PLAY)] s
           | Button_Pause \<Rightarrow> Return [(callback, SMTC_BUTTON_PAUSE)] s
           | Button_Stop \<Rightarrow> Return [(callback, SMTC_BUTTON_STOP)] s
           | Button_Next \<Rightarrow> Return [(callback, SMTC_BUTTON_NEXT)] s
           | Button_Previous \<Rightarrow> Return [(callback, SMTC_BUTTON_PREVIOUS)] s
           | Button_FastForward \<Rightarrow> Return [(callback, SMTC_BUTTON_FAST_FORWARD)] s
           | Button_Rewind \<Rightarrow> Return [(callback, SMTC_BUTTON_REWIND)] s
           | Button_Other _ \<Rightarrow> Return [] s))"

subsection \<open>Error string\<close>

definition SmtcGetLastError :: "state \<Rightarrow> string res" where
  "SmtcGetLastError = lock_guard (\<lambda>s. Return (g_lastError s) s)"

definition SmtcClearError :: "state \<Rightarrow> unit res" where
  "SmtcClearError = lock_guard (\<lambda>s. Return () (s\<lparr>g_lastError := []\<rparr>))"

subsection \<open>A native layer in which nothing fails\<close>

text \<open>
  The environment used to run the model on concrete inputs: no call throws,
  \<open>CoInitializeEx\<close> answers \<open>S_OK\<close>, and fresh objects carry all-false flags, status
  \<open>Closed\<close> and empty text.
\<close>

definition quiet_env :: native_env where
  "quiet_env =
     \<lparr> throws = (\<lambda>_. None), CoInitializeEx = 0,
       new_MediaPlayer = \<lparr>CommandManager_IsEnabled = True, mp_Closed = False\<rparr>,
       new_smtc = Some
         \<lparr> IsPlayEnabled = False, IsPauseEnabled = False, IsStopEnabled = False,
           IsNextEnabled = False, IsPreviousEnabled = False, IsFastForwardEnabled = False,
           IsRewindEnabled = False, IsEnabled = False, PlaybackStatus = Status_Closed,
           Timeline = None, ButtonPressed = [] \<rparr>,
       new_DisplayUpdater =
         \<lparr> du_Type = Type_Unknown,
           du_MusicProperties = \<lparr>Title = [], Artist = [], AlbumTitle = []\<rparr>,
           du_Thumbnail = None, du_Updates = 0 \<rparr>,
       new_token = 1 \<rparr>"

text \<open>The state \<open>SmtcInitialize\<close> leaves from the initial one in that environment.\<close>

definition running_state :: state where
  "running_state =
     \<lparr> g_mutex = False, g_initialized = True, g_comInitialized = True,
       g_mediaPlayer = Some \<lparr>CommandManager_IsEnabled = False, mp_Closed = False\<rparr>,
       g_smtc = Some
         \<lparr> IsPlayEnabled = True, IsPauseEnabled = True, IsStopEnabled = False,
           IsNextEnabled = True, IsPreviousEnabled = True, IsFastForwardEnabled = False,
           IsRewindEnabled = False, IsEnabled = True, PlaybackStatus = Status_Closed,
           Timeline = None, ButtonPressed = [1] \<rparr>,
       g_displayUpdater = Some
         \<lparr> du_Type = Type_Music,
           du_MusicProperties = \<lparr>Title = [], Artist = [], AlbumTitle = []\<rparr>,
           du_Thumbnail = None, du_Updates = 0 \<rparr>,
       g_lastError = [], g_buttonCallback = None, g_positionCallback = None,
       g_buttonPressedToken = 1 \<rparr>"

text \<open>
  What \<open>SmtcInitialize\<close> needs from the native layer to get through its setup: a result of
  \<open>CoInitializeEx\<close> it accepts, a transport-controls object that is not null, and no
  exception from the thirteen calls it makes.
\<close>

definition native_setup_succeeds :: "native_env \<Rightarrow> bool" where
  "native_setup_succeeds env =
     ((SUCCEEDED (CoInitializeEx env) \<or> CoInitializeEx env = RPC_E_CHANGED_MODE)
      \<and> new_smtc env \<noteq> None
      \<and> list_all (\<lambda>c. throws env c = None)
            [MediaPlayer_new, MediaPlayer_CommandManager, CommandManager_IsEnabled_put,
             MediaPlayer_SystemMediaTransportControls, IsPlayEnabled_put, IsPauseEnabled_put,
             IsNextEnabled_put, IsPreviousEnabled_put, IsStopEnabled_put, Smtc_DisplayUpdater,
             Type_put, ButtonPressed_add, IsEnabled_put])"

text \<open>A running state in which the host has registered both callbacks and set a title.\<close>

definition playing_state :: state where
  "playing_state =
     running_state
       \<lparr> g_displayUpdater := Some
           \<lparr> du_Type = Type_Music,
             du_MusicProperties = \<lparr>Title = [0x53, 0x6F, 0x6E, 0x67], Artist = [], AlbumTitle = []\<rparr>,
             du_Thumbnail = Some (CreateFromUri [0x61, 0x2E, 0x70, 0x6E, 0x67]), du_Updates = 1 \<rparr>,
         g_buttonCallback := Some 4096, g_positionCallback := Some 8192 \<rparr>"

text \<open>A native layer in which every call throws.\<close>

definition failing_env :: native_env where
  "failing_env = quiet_env\<lparr>throws := (\<lambda>_. Some (hresult_error ''E_FAIL''))\<rparr>"

section \<open>Properties\<close>

lemmas smtc_enum_defs =
  SMTC_PLAYBACK_CLOSED_def SMTC_PLAYBACK_STOPPED_def SMTC_PLAYBACK_PLAYING_def
  SMTC_PLAYBACK_PAUSED_def SMTC_PLAYBACK_CHANGING_def
  SMTC_BUTTON_PLAY_def SMTC_BUTTON_PAUSE_def SMTC_BUTTON_STOP_def SMTC_BUTTON_RECORD_def
  SMTC_BUTTON_FAST_FORWARD_def SMTC_BUTTON_REWIND_def SMTC_BUTTON_NEXT_def
  SMTC_BUTTON_PREVIOUS_def SMTC_BUTTON_CHANNEL_UP_def SMTC_BUTTON_CHANNEL_DOWN_def
  SMTC_MEDIA_UNKNOWN_def SMTC_MEDIA_MUSIC_def SMTC_MEDIA_VIDEO_def SMTC_MEDIA_IMAGE_def

subsection \<open>Shared facts\<close>

lemma unlock_free: "\<not> g_mutex s \<Longrightarrow> s\<lparr>g_mutex := False\<rparr> = s"
  by (cases s) simp

text \<open>
  Every public function holds \<open>g_mutex\<close> for its whole body, and \<open>SetError\<close> locks it
  again: called from such a body it does not come back.
\<close>

lemma SetError_holding_lock: "g_mutex s \<Longrightarrow> SetError msg s = Blocked"
  by (simp add: SetError_def lock_guard_def)

lemma not_initialized_holding_lock: "g_mutex s \<Longrightarrow> not_initialized s = Blocked"
  by (simp add: not_initialized_def SetError_holding_lock)

lemma catch_hresult_holding_lock:
  "g_mutex s \<Longrightarrow> catch_hresult (hresult_error msg) s = Blocked"
  by (simp add: catch_hresult_def SetError_holding_lock)

lemma running_state_is_initialized:
  "SmtcInitialize quiet_env initial_state = Return 0 running_state"
  by (simp add: SmtcInitialize_def lock_guard_def init_com_def init_player_def
      init_controls_def native_def on_smtc_def on_updater_def on_player_def
      quiet_env_def initial_state_def running_state_def SUCCEEDED_def)

lemma quiet_env_setup_succeeds: "native_setup_succeeds quiet_env"
  by (simp add: native_setup_succeeds_def quiet_env_def SUCCEEDED_def)

lemma SmtcInitialize_again:
  "g_initialized s \<Longrightarrow> \<not> g_mutex s \<Longrightarrow> SmtcInitialize env s = Return 0 s"
  by (simp add: SmtcInitialize_def lock_guard_def unlock_free)

text \<open>
  \<open>SmtcInitialize\<close> has one way to return: through line 146, with the flag set and the
  lock released. Each of its error paths goes through \<open>SetError\<close>.
\<close>

lemma SmtcInitialize_returns:
  assumes "SmtcInitialize env s = Return rc s'"
  shows "rc = 0 \<and> g_initialized s' \<and> \<not> g_mutex s'"
  using assms
  by (auto simp add: SmtcInitialize_def lock_guard_def init_com_def init_player_def
      init_controls_def native_def on_smtc_def on_updater_def on_player_def Let_def
      catch_init_def SetError_holding_lock
      split: if_splits option.splits exn.splits res.splits)

lemma SmtcInitialize_fresh:
  assumes "native_setup_succeeds env" "\<not> g_initialized s" "\<not> g_mutex s"
  shows "\<exists>s'. SmtcInitialize env s = Return 0 s' \<and> g_initialized s' \<and> \<not> g_mutex s'"
  using assms
  by (auto simp add: native_setup_succeeds_def SmtcInitialize_def lock_guard_def init_com_def
      init_player_def init_controls_def native_def on_smtc_def on_updater_def on_player_def
      Let_def)

lemma SmtcInitialize_needs_setup:
  assumes "SmtcInitialize env s = Return rc s'" "\<not> g_initialized s"
  shows "native_setup_succeeds env"
  using assms
  by (auto simp add: native_setup_succeeds_def SmtcInitialize_def lock_guard_def init_com_def
      init_player_def init_controls_def native_def on_smtc_def on_updater_def on_player_def
      Let_def catch_init_def SetError_holding_lock SUCCEEDED_def S_FALSE_def
      split: if_splits option.splits exn.splits res.splits)

lemma SmtcShutdown_uninitialized:
  "\<not> g_initialized s \<Longrightarrow> \<not> g_mutex s \<Longrightarrow> SmtcShutdown env s = Return () s"
  by (simp add: SmtcShutdown_def lock_guard_def unlock_free)

text \<open>
  Whatever the native calls of the teardown do, \<open>SmtcShutdown\<close> returns with the flag
  cleared, the handles of the controls and the updater null and both callbacks null.
\<close>

lemma SmtcShutdown_initialized:
  assumes "g_initialized s" "\<not> g_mutex s"
  shows "\<exists>s'. SmtcShutdown env s = Return () s' \<and> \<not> g_initialized s' \<and> \<not> g_mutex s'
     \<and> g_buttonCallback s' = None \<and> g_positionCallback s' = None
     \<and> g_smtc s' = None \<and> g_displayUpdater s' = None \<and> \<not> g_comInitialized s'"
  using assms
  by (cases "throws env ButtonPressed_remove"; cases "throws env IsEnabled_put";
      cases "throws env MediaPlayer_Close"; cases "g_smtc s"; cases "g_mediaPlayer s")
     (simp_all add: SmtcShutdown_def lock_guard_def swallow_def native_def on_smtc_def
        on_player_def)

lemma SmtcIsInitialized_value:
  "\<not> g_mutex s \<Longrightarrow> SmtcIsInitialized s = Return (if g_initialized s then 1 else 0) s"
  by (simp add: SmtcIsInitialized_def lock_guard_def unlock_free)

subsection \<open>Failure paths\<close>

text \<open>
  Claim C1. Every public operation that fails, by being called before initialisation or
  by an exception of the native layer, is meant to come back with a negative code, the
  error recorded on the way while the operation holds the global mutex.

  The code does not do that. The guard of \<open>SmtcSetMediaType\<close> (lines 217 to 221) calls
  \<open>SetError\<close> with \<open>g_mutex\<close> held, and \<open>SetError\<close> (line 49) locks \<open>g_mutex\<close> again:
  the call made before initialisation never returns. The same happens on the handler of
  a native exception (line 244) and on the COM failure path of \<open>SmtcInitialize\<close>
  (line 79, here with \<open>E_FAIL\<close>, 0x80004005).
\<close>

theorem C1_error_recording_blocks:
  "SmtcSetMediaType env mediaType initial_state = Blocked
   \<and> SmtcSetMediaType (env\<lparr>throws := (throws env)(Type_put := Some (hresult_error msg))\<rparr>)
         mediaType running_state = Blocked
   \<and> SmtcInitialize (env\<lparr>CoInitializeEx := - 2147467259\<rparr>) initial_state = Blocked"
  by (simp add: SmtcSetMediaType_def SmtcInitialize_def lock_guard_def
      not_initialized_holding_lock catch_hresult_holding_lock SetError_holding_lock
      native_def Let_def init_com_def SUCCEEDED_def RPC_E_CHANGED_MODE_def S_FALSE_def
      initial_state_def running_state_def)

theorem C1_error_recording_blocks_witness:
  "SmtcSetMediaType quiet_env SMTC_MEDIA_MUSIC initial_state = Blocked
   \<and> SmtcSetMediaType
         (quiet_env\<lparr>throws := (throws quiet_env)(Type_put := Some (hresult_error ''E_FAIL''))\<rparr>)
         SMTC_MEDIA_MUSIC running_state = Blocked
   \<and> SmtcInitialize (quiet_env\<lparr>CoInitializeEx := - 2147467259\<rparr>) initial_state = Blocked"
  by (rule C1_error_recording_blocks)

subsection \<open>Calls before initialisation\<close>

text \<open>
  Claim C2 says that before \<open>SmtcInitialize\<close> first succeeds every public operation but
  \<open>SmtcIsInitialized\<close> returns the negative not-initialized code and leaves the error
  string at the fixed message, the getters and the callback registrations included.

  As stated this fails: \<open>SmtcGetPlaybackStatus\<close> called first of all returns
  \<open>SMTC_PLAYBACK_CLOSED\<close>, which is 0, and the error string stays empty.
\<close>

theorem C2_getter_counterexample:
  "SmtcGetPlaybackStatus quiet_env initial_state = Return SMTC_PLAYBACK_CLOSED initial_state
   \<and> \<not> SMTC_PLAYBACK_CLOSED < 0
   \<and> g_lastError initial_state \<noteq> ''Not initialized''"
  by (simp add: SmtcGetPlaybackStatus_def lock_guard_def initial_state_def smtc_enum_defs)

text \<open>
  Claim C2, amended. In every state in which the flag is not set (which covers every
  sequence of calls before the first successful \<open>SmtcInitialize\<close>):
  \<^item> \<open>SmtcGetPlaybackStatus\<close> returns \<open>SMTC_PLAYBACK_CLOSED\<close> and \<open>SmtcIsButtonEnabled\<close>
    returns 0, and neither changes anything, the error string included;
  \<^item> the two callback registrations store their argument and change nothing else;
  \<^item> \<open>SmtcShutdown\<close> does nothing, \<open>SmtcGetLastError\<close> reads the error string and
    \<open>SmtcClearError\<close> empties it; none of them has a not-initialized check;
  \<^item> each of the nine setters that return a status takes its not-initialized branch,
    whatever its arguments and whatever the native layer would do: the call is the guard
    \<open>SetError("Not initialized"); return -1;\<close> run under the lock, and it does not report
    success.
\<close>

theorem C2_before_initialize:
  assumes "\<not> g_initialized s" "\<not> g_mutex s"
  shows "SmtcGetPlaybackStatus env s = Return SMTC_PLAYBACK_CLOSED s
    \<and> SmtcIsButtonEnabled env buttonType s = Return 0 s
    \<and> SmtcSetButtonPressedCallback callback s = Return () (s\<lparr>g_buttonCallback := callback\<rparr>)
    \<and> SmtcSetPositionChangeRequestedCallback callback' s
        = Return () (s\<lparr>g_positionCallback := callback'\<rparr>)
    \<and> SmtcShutdown env s = Return () s
    \<and> SmtcGetLastError s = Return (g_lastError s) s
    \<and> SmtcClearError s = Return () (s\<lparr>g_lastError := []\<rparr>)
    \<and> SmtcSetMediaType env mediaType s = lock_guard not_initialized s
    \<and> SmtcSetMusicInfo env title artist album s = lock_guard not_initialized s
    \<and> SmtcSetThumbnailFromFile env filePath s = lock_guard not_initialized s
    \<and> SmtcSetThumbnailFromMemory env data dataSize mimeType s = lock_guard not_initialized s
    \<and> SmtcClearThumbnail env s = lock_guard not_initialized s
    \<and> SmtcUpdateDisplay env s = lock_guard not_initialized s
    \<and> SmtcSetPlaybackStatus env status s = lock_guard not_initialized s
    \<and> SmtcSetButtonEnabled env buttonType enabled s = lock_guard not_initialized s
    \<and> SmtcSetTimelineProperties env startTimeMs endTimeMs positionMs s
        = lock_guard not_initialized s
    \<and> (\<forall>s'. lock_guard not_initialized s \<noteq> Return 0 s')"
proof -
  have getters: "SmtcGetPlaybackStatus env s = Return SMTC_PLAYBACK_CLOSED s"
      "SmtcIsButtonEnabled env buttonType s = Return 0 s"
    using assms
    by (simp_all add: SmtcGetPlaybackStatus_def SmtcIsButtonEnabled_def lock_guard_def
        unlock_free)
  have callbacks:
      "SmtcSetButtonPressedCallback callback s = Return () (s\<lparr>g_buttonCallback := callback\<rparr>)"
      "SmtcSetPositionChangeRequestedCallback callback' s
        = Return () (s\<lparr>g_positionCallback := callback'\<rparr>)"
    using assms
    by (cases s, simp add: SmtcSetButtonPressedCallback_def
          SmtcSetPositionChangeRequestedCallback_def lock_guard_def)+
  have others: "SmtcShutdown env s = Return () s"
      "SmtcGetLastError s = Return (g_lastError s) s"
      "SmtcClearError s = Return () (s\<lparr>g_lastError := []\<rparr>)"
    using assms
    by (cases s, simp add: SmtcShutdown_def SmtcGetLastError_def SmtcClearError_def
          lock_guard_def)+
  have setters:
      "SmtcSetMediaType env mediaType s = lock_guard not_initialized s"
      "SmtcSetMusicInfo env title artist album s = lock_guard not_initialized s"
      "SmtcSetThumbnailFromFile env filePath s = lock_guard not_initialized s"
      "SmtcSetThumbnailFromMemory env data dataSize mimeType s = lock_guard not_initialized s"
      "SmtcClearThumbnail env s = lock_guard not_initialized s"
      "SmtcUpdateDisplay env s = lock_guard not_initialized s"
      "SmtcSetPlaybackStatus env status s = lock_guard not_initialized s"
      "SmtcSetButtonEnabled env buttonType enabled s = lock_guard not_initialized s"
      "SmtcSetTimelineProperties env startTimeMs endTimeMs positionMs s
        = lock_guard not_initialized s"
    using assms
    by (simp_all add: SmtcSetMediaType_def SmtcSetMusicInfo_def SmtcSetThumbnailFromFile_def
        SmtcSetThumbnailFromMemory_def SmtcClearThumbnail_def SmtcUpdateDisplay_def
        SmtcSetPlaybackStatus_def SmtcSetButtonEnabled_def SmtcSetTimelineProperties_def
        lock_guard_def)
  have no_success: "\<forall>s'. lock_guard not_initialized s \<noteq> Return 0 s'"
    by (simp add: lock_guard_def not_initialized_holding_lock)
  from getters callbacks others setters no_success show ?thesis by simp
qed

theorem C2_before_initialize_witness:
  "SmtcGetPlaybackStatus failing_env initial_state = Return SMTC_PLAYBACK_CLOSED initial_state
    \<and> SmtcIsButtonEnabled failing_env SMTC_BUTTON_PLAY initial_state = Return 0 initial_state
    \<and> SmtcSetButtonPressedCallback (Some 4096) initial_state
        = Return () (initial_state\<lparr>g_buttonCallback := Some 4096\<rparr>)
    \<and> SmtcSetPositionChangeRequestedCallback None initial_state
        = Return () (initial_state\<lparr>g_positionCallback := None\<rparr>)
    \<and> SmtcShutdown failing_env initial_state = Return () initial_state
    \<and> SmtcGetLastError initial_state = Return (g_lastError initial_state) initial_state
    \<and> SmtcClearError initial_state = Return () (initial_state\<lparr>g_lastError := []\<rparr>)
    \<and> SmtcSetMediaType failing_env SMTC_MEDIA_VIDEO initial_state
        = lock_guard not_initialized initial_state
    \<and> SmtcSetMusicInfo failing_env (Some []) None None initial_state
        = lock_guard not_initialized initial_state
    \<and> SmtcSetThumbnailFromFile failing_env None initial_state
        = lock_guard not_initialized initial_state
    \<and> SmtcSetThumbnailFromMemory failing_env None 0 None initial_state
        = lock_guard not_initialized initial_state
    \<and> SmtcClearThumbnail failing_env initial_state = lock_guard not_initialized initial_state
    \<and> SmtcUpdateDisplay failing_env initial_state = lock_guard not_initialized initial_state
    \<and> SmtcSetPlaybackStatus failing_env SMTC_PLAYBACK_PLAYING initial_state
        = lock_guard not_initialized initial_state
    \<and> SmtcSetButtonEnabled failing_env SMTC_BUTTON_PLAY 1 initial_state
        = lock_guard not_initialized initial_state
    \<and> SmtcSetTimelineProperties failing_env 0 10000 5000 initial_state
        = lock_guard not_initialized initial_state
    \<and> (\<forall>s'. lock_guard not_initialized initial_state \<noteq> Return 0 s')"
proof -
  have h1: "\<not> g_initialized initial_state" by (simp add: initial_state_def)
  have h2: "\<not> g_mutex initial_state" by (simp add: initial_state_def)
  show ?thesis by (rule C2_before_initialize [OF h1 h2])
qed

subsection \<open>Lifecycle\<close>

text \<open>
  Claim C3. \<open>SmtcInitialize\<close> is idempotent: once a call has succeeded, a further call
  returns 0 at once, does no native setup and leaves the module state as it was. The
  second call is made in an arbitrary native environment \<open>env'\<close>, so its result does not
  depend on any native call. The second conjunct says the same of any state in which the
  flag is set, which covers the calls made later in the session.
\<close>

theorem C3_initialize_idempotent:
  "(SmtcInitialize env s = Return 0 s\<^sub>1 \<longrightarrow> SmtcInitialize env' s\<^sub>1 = Return 0 s\<^sub>1)
   \<and> (g_initialized s \<and> \<not> g_mutex s \<longrightarrow> SmtcInitialize env' s = Return 0 s)"
proof (intro conjI impI)
  assume "SmtcInitialize env s = Return 0 s\<^sub>1"
  then have "g_initialized s\<^sub>1" and "\<not> g_mutex s\<^sub>1"
    using SmtcInitialize_returns by blast+
  then show "SmtcInitialize env' s\<^sub>1 = Return 0 s\<^sub>1"
    by (rule SmtcInitialize_again)
next
  assume "g_initialized s \<and> \<not> g_mutex s"
  then show "SmtcInitialize env' s = Return 0 s"
    by (simp add: SmtcInitialize_again)
qed

theorem C3_initialize_idempotent_witness:
  "SmtcInitialize quiet_env initial_state = Return 0 running_state
   \<and> SmtcInitialize failing_env running_state = Return 0 running_state
   \<and> g_initialized playing_state \<and> \<not> g_mutex playing_state
   \<and> SmtcInitialize failing_env playing_state = Return 0 playing_state"
proof -
  have first: "SmtcInitialize quiet_env initial_state = Return 0 running_state"
    by (rule running_state_is_initialized)
  have playing: "g_initialized playing_state \<and> \<not> g_mutex playing_state"
    by (simp add: playing_state_def running_state_def)
  from first playing
    C3_initialize_idempotent [of quiet_env initial_state running_state failing_env]
    C3_initialize_idempotent [of quiet_env playing_state running_state failing_env]
  show ?thesis by simp
qed

text \<open>
  Claim C4. \<open>SmtcShutdown\<close> in the uninitialized state is a no-op that changes no state.
  From any initialized state, and so after any successful \<open>SmtcInitialize\<close> and whatever
  was called since, \<open>SmtcShutdown\<close> returns whatever the native teardown calls do; after
  it \<open>SmtcIsInitialized\<close> returns 0, both callback slots are null, and \<open>SmtcInitialize\<close>
  succeeds again whenever the native setup does.
\<close>

theorem C4_shutdown_lifecycle:
  "(\<not> g_initialized s \<and> \<not> g_mutex s \<longrightarrow> SmtcShutdown env s = Return () s)
   \<and> (g_initialized s \<and> \<not> g_mutex s \<longrightarrow>
        (\<exists>s\<^sub>2. SmtcShutdown env s = Return () s\<^sub>2
           \<and> SmtcIsInitialized s\<^sub>2 = Return 0 s\<^sub>2
           \<and> g_buttonCallback s\<^sub>2 = None \<and> g_positionCallback s\<^sub>2 = None
           \<and> (native_setup_succeeds env' \<longrightarrow>
                (\<exists>s\<^sub>3. SmtcInitialize env' s\<^sub>2 = Return 0 s\<^sub>3
                   \<and> SmtcIsInitialized s\<^sub>3 = Return 1 s\<^sub>3))))"
proof (intro conjI impI)
  assume "\<not> g_initialized s \<and> \<not> g_mutex s"
  then show "SmtcShutdown env s = Return () s"
    by (simp add: SmtcShutdown_uninitialized)
next
  assume "g_initialized s \<and> \<not> g_mutex s"
  then obtain s\<^sub>2 where down: "SmtcShutdown env s = Return () s\<^sub>2"
      and flag: "\<not> g_initialized s\<^sub>2" and free: "\<not> g_mutex s\<^sub>2"
      and slots: "g_buttonCallback s\<^sub>2 = None" "g_positionCallback s\<^sub>2 = None"
    using SmtcShutdown_initialized [of s env] by blast
  have again: "\<exists>s\<^sub>3. SmtcInitialize env' s\<^sub>2 = Return 0 s\<^sub>3 \<and> SmtcIsInitialized s\<^sub>3 = Return 1 s\<^sub>3"
    if "native_setup_succeeds env'"
  proof -
    from SmtcInitialize_fresh [OF that flag free]
    obtain s\<^sub>3 where "SmtcInitialize env' s\<^sub>2 = Return 0 s\<^sub>3" "g_initialized s\<^sub>3" "\<not> g_mutex s\<^sub>3"
      by blast
    then show ?thesis by (auto simp add: SmtcIsInitialized_value)
  qed
  from down flag free slots again
  show "\<exists>s\<^sub>2. SmtcShutdown env s = Return () s\<^sub>2
           \<and> SmtcIsInitialized s\<^sub>2 = Return 0 s\<^sub>2
           \<and> g_buttonCallback s\<^sub>2 = None \<and> g_positionCallback s\<^sub>2 = None
           \<and> (native_setup_succeeds env' \<longrightarrow>
                (\<exists>s\<^sub>3. SmtcInitialize env' s\<^sub>2 = Return 0 s\<^sub>3
                   \<and> SmtcIsInitialized s\<^sub>3 = Return 1 s\<^sub>3))"
    by (auto simp add: SmtcIsInitialized_value)
qed

theorem C4_shutdown_lifecycle_witness:
  "SmtcShutdown failing_env initial_state = Return () initial_state
   \<and> (\<exists>s\<^sub>2. SmtcShutdown failing_env playing_state = Return () s\<^sub>2
           \<and> SmtcIsInitialized s\<^sub>2 = Return 0 s\<^sub>2
           \<and> g_buttonCallback s\<^sub>2 = None \<and> g_positionCallback s\<^sub>2 = None
           \<and> (\<exists>s\<^sub>3. SmtcInitialize quiet_env s\<^sub>2 = Return 0 s\<^sub>3
                   \<and> SmtcIsInitialized s\<^sub>3 = Return 1 s\<^sub>3))"
proof -
  have off: "\<not> g_initialized initial_state \<and> \<not> g_mutex initial_state"
    by (simp add: initial_state_def)
  have on: "g_initialized playing_state \<and> \<not> g_mutex playing_state"
    by (simp add: playing_state_def running_state_def)
  from off on quiet_env_setup_succeeds
    C4_shutdown_lifecycle [of initial_state failing_env quiet_env]
    C4_shutdown_lifecycle [of playing_state failing_env quiet_env]
  show ?thesis by simp
qed

subsection \<open>Metadata\<close>

text \<open>
  Claim C5. In the initialized state \<open>SmtcSetMusicInfo\<close> leaves the field of each null
  argument as it was (its native setter is not even called, so it may be one that would
  throw) and overwrites the field of each argument that is not null, the empty string
  included; nothing else in the state changes. The native calls that are made are assumed
  not to throw.
\<close>

theorem C5_SetMusicInfo_null_keeps_field:
  assumes "g_initialized s" "\<not> g_mutex s" "g_displayUpdater s = Some d"
    and "throws env MusicProperties_get = None"
    and "title = None \<or> throws env Title_put = None"
    and "artist = None \<or> throws env Artist_put = None"
    and "album = None \<or> throws env AlbumTitle_put = None"
  shows "SmtcSetMusicInfo env title artist album s =
     Return 0 (s\<lparr>g_displayUpdater := Some (d\<lparr>du_MusicProperties :=
       (du_MusicProperties d)
         \<lparr>Title := (case title of None \<Rightarrow> Title (du_MusicProperties d) | Some t \<Rightarrow> t),
          Artist := (case artist of None \<Rightarrow> Artist (du_MusicProperties d) | Some a \<Rightarrow> a),
          AlbumTitle :=
            (case album of None \<Rightarrow> AlbumTitle (du_MusicProperties d) | Some a \<Rightarrow> a)\<rparr>\<rparr>)\<rparr>)"
  using assms
  by (cases s; cases d; cases "du_MusicProperties d"; cases title; cases artist; cases album)
     (simp_all add: SmtcSetMusicInfo_def lock_guard_def native_def on_updater_def)

text \<open>
  The test of the specification: a title is set, then \<open>SetMusicInfo(null, "A", null)\<close>;
  the title is still there. The setters of title and album throw in this environment.
\<close>

theorem C5_SetMusicInfo_null_keeps_field_witness:
  "SmtcSetMusicInfo
     (quiet_env\<lparr>throws := (throws quiet_env)
        (Title_put := Some other_exception, AlbumTitle_put := Some other_exception)\<rparr>)
     None (Some [0x41]) None playing_state
   = Return 0 (playing_state\<lparr>g_displayUpdater := Some
       \<lparr> du_Type = Type_Music,
         du_MusicProperties =
           \<lparr>Title = [0x53, 0x6F, 0x6E, 0x67], Artist = [0x41], AlbumTitle = []\<rparr>,
         du_Thumbnail = Some (CreateFromUri [0x61, 0x2E, 0x70, 0x6E, 0x67]),
         du_Updates = 1 \<rparr>\<rparr>)"
proof -
  let ?env = "quiet_env\<lparr>throws := (throws quiet_env)
        (Title_put := Some other_exception, AlbumTitle_put := Some other_exception)\<rparr>"
  let ?d = "\<lparr> du_Type = Type_Music,
         du_MusicProperties = \<lparr>Title = [0x53, 0x6F, 0x6E, 0x67], Artist = [], AlbumTitle = []\<rparr>,
         du_Thumbnail = Some (CreateFromUri [0x61, 0x2E, 0x70, 0x6E, 0x67]),
         du_Updates = 1 \<rparr>"
  have h1: "g_initialized playing_state" and h2: "\<not> g_mutex playing_state"
    and h3: "g_displayUpdater playing_state = Some ?d"
    by (simp_all add: playing_state_def running_state_def)
  have h4: "throws ?env MusicProperties_get = None"
    and h6: "Some [0x41 :: 16 word] = None \<or> throws ?env Artist_put = None"
    by (simp_all add: quiet_env_def)
  have h5: "(None :: wstring option) = None \<or> throws ?env Title_put = None"
    and h7: "(None :: wstring option) = None \<or> throws ?env AlbumTitle_put = None"
    by simp_all
  from C5_SetMusicInfo_null_keeps_field [OF h1 h2 h3 h4 h5 h6 h7]
  show ?thesis by simp
qed

text \<open>
  Claim C6. In the initialized state \<open>SmtcSetThumbnailFromFile(null)\<close>,
  \<open>SmtcSetThumbnailFromMemory\<close> with null data or size zero, and \<open>SmtcClearThumbnail()\<close>
  return 0 and leave the same state: the one that differs from the state before in the
  thumbnail only, which is null. The one native call each makes, the setter of the
  thumbnail, is assumed not to throw.
\<close>

theorem C6_three_ways_to_clear_thumbnail:
  assumes "g_initialized s" "\<not> g_mutex s" "g_displayUpdater s = Some d"
    and "throws env Thumbnail_put = None" and "data = None \<or> dataSize = 0"
  shows "SmtcSetThumbnailFromFile env None s
           = Return 0 (s\<lparr>g_displayUpdater := Some (d\<lparr>du_Thumbnail := None\<rparr>)\<rparr>)
   \<and> SmtcSetThumbnailFromMemory env data dataSize mimeType s
           = Return 0 (s\<lparr>g_displayUpdater := Some (d\<lparr>du_Thumbnail := None\<rparr>)\<rparr>)
   \<and> SmtcClearThumbnail env s
           = Return 0 (s\<lparr>g_displayUpdater := Some (d\<lparr>du_Thumbnail := None\<rparr>)\<rparr>)"
  using assms
  by (cases s)
     (auto simp add: SmtcSetThumbnailFromFile_def SmtcSetThumbnailFromMemory_def
        SmtcClearThumbnail_def lock_guard_def native_def on_updater_def)

theorem C6_three_ways_to_clear_thumbnail_witness:
  "SmtcSetThumbnailFromFile quiet_env None playing_state
     = Return 0 (playing_state\<lparr>g_displayUpdater :=
         Some (the (g_displayUpdater playing_state)\<lparr>du_Thumbnail := None\<rparr>)\<rparr>)
   \<and> SmtcSetThumbnailFromMemory quiet_env (Some [0x89, 0x50]) 0 (Some ''image/png'') playing_state
     = Return 0 (playing_state\<lparr>g_displayUpdater :=
         Some (the (g_displayUpdater playing_state)\<lparr>du_Thumbnail := None\<rparr>)\<rparr>)
   \<and> SmtcClearThumbnail quiet_env playing_state
     = Return 0 (playing_state\<lparr>g_displayUpdater :=
         Some (the (g_displayUpdater playing_state)\<lparr>du_Thumbnail := None\<rparr>)\<rparr>)
   \<and> du_Thumbnail (the (g_displayUpdater playing_state)) \<noteq> None"
proof -
  have h1: "g_initialized playing_state" and h2: "\<not> g_mutex playing_state"
    and h3: "g_displayUpdater playing_state = Some (the (g_displayUpdater playing_state))"
    and before: "du_Thumbnail (the (g_displayUpdater playing_state)) \<noteq> None"
    by (simp_all add: playing_state_def running_state_def)
  have h4: "throws quiet_env Thumbnail_put = None"
    by (simp add: quiet_env_def)
  have h5: "Some [0x89, 0x50 :: 8 word] = None \<or> (0 :: 32 word) = 0"
    by simp
  from before C6_three_ways_to_clear_thumbnail [OF h1 h2 h3 h4 h5]
  show ?thesis by simp
qed

subsection \<open>Timeline\<close>

text \<open>
  Within 922337203685477 ms of zero, about 29000 years, the conversion to ticks is exact.
\<close>

lemma to_TimeSpan_exact:
  assumes "- 922337203685477 \<le> sint ms" "sint ms \<le> 922337203685477"
  shows "sint (to_TimeSpan ms) = sint ms * 10000"
proof -
  have "sint (ms * 10000) = signed_take_bit 63 (sint ms * sint (10000 :: 64 word))"
    by (simp add: sint_word_ariths)
  also have "sint (10000 :: 64 word) = 10000"
    by simp
  also have "signed_take_bit 63 (sint ms * 10000) = sint ms * 10000"
    using assms by (intro signed_take_bit_int_eq_self) simp_all
  finally show ?thesis
    by (simp add: to_TimeSpan_def)
qed

text \<open>
  Claim C7 says that for every triple of signed 64-bit millisecond values a successful
  \<open>SmtcSetTimelineProperties\<close> sets the minimum and maximum seek bounds to exactly the
  start and the end.

  As stated this fails at the far ends of the 64-bit range. With the start at the least
  \<open>long long\<close> and the end at 922337203685478 ms the call returns 0, and the bounds it
  has set are a minimum of zero ticks and a negative maximum: neither is the duration
  given.
\<close>

theorem C7_extreme_values_counterexample:
  "SmtcSetTimelineProperties quiet_env (- 9223372036854775808) 922337203685478 0 running_state
     = Return 0 (running_state\<lparr>g_smtc := Some (the (g_smtc running_state)\<lparr>Timeline :=
         Some \<lparr>StartTime = 0, EndTime = - 9223372036854771616, Position = 0,
               MinSeekTime = 0, MaxSeekTime = - 9223372036854771616\<rparr>\<rparr>)\<rparr>)
   \<and> sint (0 :: TimeSpan) \<noteq> sint (- 9223372036854775808 :: 64 word) * 10000
   \<and> sint (- 9223372036854771616 :: TimeSpan) \<noteq> sint (922337203685478 :: 64 word) * 10000"
  by (simp add: SmtcSetTimelineProperties_def lock_guard_def native_def on_smtc_def
      to_TimeSpan_def running_state_def quiet_env_def)

text \<open>
  Claim C7, amended. For every triple of 64-bit values, whenever
  \<open>SmtcSetTimelineProperties\<close> returns, it returns 0 and the controls hold a timeline
  whose minimum and maximum seek times are the very tick counts of its start and end
  times, whatever the position. There is no check of \<open>start \<le> position \<le> end\<close>: in an
  initialized state the call returns 0 for every triple as long as none of its seven
  native calls throws. For a value within 922337203685477 ms of zero the tick count is
  exactly that value (times 10000), so for a start and an end in that range the seek
  bounds are exactly the start and the end given.
\<close>

theorem C7_seek_range_is_start_end:
  "(SmtcSetTimelineProperties env startTimeMs endTimeMs positionMs s = Return rc s' \<longrightarrow>
      rc = 0
      \<and> map_option Timeline (g_smtc s') =
          Some (Some \<lparr>StartTime = to_TimeSpan startTimeMs, EndTime = to_TimeSpan endTimeMs,
                      Position = to_TimeSpan positionMs,
                      MinSeekTime = to_TimeSpan startTimeMs,
                      MaxSeekTime = to_TimeSpan endTimeMs\<rparr>))
   \<and> (g_initialized s \<and> \<not> g_mutex s \<and> g_smtc s = Some c
       \<and> list_all (\<lambda>n. throws env n = None)
            [TimelineProperties_new, StartTime_put, EndTime_put, Position_put,
             MinSeekTime_put, MaxSeekTime_put, UpdateTimelineProperties] \<longrightarrow>
      SmtcSetTimelineProperties env startTimeMs endTimeMs positionMs s =
        Return 0 (s\<lparr>g_smtc := Some (c\<lparr>Timeline :=
          Some \<lparr>StartTime = to_TimeSpan startTimeMs, EndTime = to_TimeSpan endTimeMs,
                Position = to_TimeSpan positionMs,
                MinSeekTime = to_TimeSpan startTimeMs,
                MaxSeekTime = to_TimeSpan endTimeMs\<rparr>\<rparr>)\<rparr>))
   \<and> (- 922337203685477 \<le> sint startTimeMs \<and> sint startTimeMs \<le> 922337203685477 \<longrightarrow>
        sint (to_TimeSpan startTimeMs) = sint startTimeMs * 10000)
   \<and> (- 922337203685477 \<le> sint endTimeMs \<and> sint endTimeMs \<le> 922337203685477 \<longrightarrow>
        sint (to_TimeSpan endTimeMs) = sint endTimeMs * 10000)"
proof -
  let ?timeline = "\<lparr>StartTime = to_TimeSpan startTimeMs, EndTime = to_TimeSpan endTimeMs,
                    Position = to_TimeSpan positionMs,
                    MinSeekTime = to_TimeSpan startTimeMs,
                    MaxSeekTime = to_TimeSpan endTimeMs\<rparr>"
  have returned: "rc = 0 \<and> map_option Timeline (g_smtc s') = Some (Some ?timeline)"
    if "SmtcSetTimelineProperties env startTimeMs endTimeMs positionMs s = Return rc s'"
    using that
    by (auto simp add: SmtcSetTimelineProperties_def lock_guard_def native_def on_smtc_def
        not_initialized_holding_lock catch_hresult_def SetError_holding_lock
        split: if_splits option.splits exn.splits res.splits)
  have accepted: "SmtcSetTimelineProperties env startTimeMs endTimeMs positionMs s =
        Return 0 (s\<lparr>g_smtc := Some (c\<lparr>Timeline := Some ?timeline\<rparr>)\<rparr>)"
    if "g_initialized s \<and> \<not> g_mutex s \<and> g_smtc s = Some c
       \<and> list_all (\<lambda>n. throws env n = None)
            [TimelineProperties_new, StartTime_put, EndTime_put, Position_put,
             MinSeekTime_put, MaxSeekTime_put, UpdateTimelineProperties]"
    using that
    by (cases s)
       (simp add: SmtcSetTimelineProperties_def lock_guard_def native_def on_smtc_def)
  from returned accepted to_TimeSpan_exact [of startTimeMs] to_TimeSpan_exact [of endTimeMs]
  show ?thesis by blast
qed

text \<open>
  An inverted range, with the position outside it, goes through as it is: 10000 ms, 0 ms
  and -5000 ms, in ticks.
\<close>

theorem C7_seek_range_is_start_end_witness:
  "SmtcSetTimelineProperties quiet_env 10000 0 (- 5000) running_state =
     Return 0 (running_state\<lparr>g_smtc := Some (the (g_smtc running_state)\<lparr>Timeline :=
       Some \<lparr>StartTime = 100000000, EndTime = 0, Position = - 50000000,
             MinSeekTime = 100000000, MaxSeekTime = 0\<rparr>\<rparr>)\<rparr>)
   \<and> map_option Timeline
        (g_smtc (running_state\<lparr>g_smtc := Some (the (g_smtc running_state)\<lparr>Timeline :=
           Some \<lparr>StartTime = 100000000, EndTime = 0, Position = - 50000000,
                 MinSeekTime = 100000000, MaxSeekTime = 0\<rparr>\<rparr>)\<rparr>)) =
      Some (Some \<lparr>StartTime = 100000000, EndTime = 0, Position = - 50000000,
                  MinSeekTime = 100000000, MaxSeekTime = 0\<rparr>)
   \<and> sint (to_TimeSpan 10000) = sint (10000 :: 64 word) * 10000
   \<and> sint (to_TimeSpan 0) = sint (0 :: 64 word) * 10000"
proof -
  have pre: "g_initialized running_state \<and> \<not> g_mutex running_state
       \<and> g_smtc running_state = Some (the (g_smtc running_state))
       \<and> list_all (\<lambda>n. throws quiet_env n = None)
            [TimelineProperties_new, StartTime_put, EndTime_put, Position_put,
             MinSeekTime_put, MaxSeekTime_put, UpdateTimelineProperties]"
    by (simp add: running_state_def quiet_env_def)
  have ticks: "to_TimeSpan 10000 = 100000000" "to_TimeSpan 0 = 0"
      "to_TimeSpan (- 5000) = - 50000000"
    by (simp_all add: to_TimeSpan_def)
  have range: "- 922337203685477 \<le> sint (10000 :: 64 word)
       \<and> sint (10000 :: 64 word) \<le> 922337203685477"
      "- 922337203685477 \<le> sint (0 :: 64 word) \<and> sint (0 :: 64 word) \<le> 922337203685477"
    by simp_all
  let ?s' = "running_state\<lparr>g_smtc := Some (the (g_smtc running_state)\<lparr>Timeline :=
       Some \<lparr>StartTime = 100000000, EndTime = 0, Position = - 50000000,
             MinSeekTime = 100000000, MaxSeekTime = 0\<rparr>\<rparr>)\<rparr>"
  have inst: "(SmtcSetTimelineProperties quiet_env 10000 0 (- 5000) running_state = Return 0 ?s'
        \<longrightarrow> map_option Timeline (g_smtc ?s') =
          Some (Some \<lparr>StartTime = 100000000, EndTime = 0, Position = - 50000000,
                      MinSeekTime = 100000000, MaxSeekTime = 0\<rparr>))
     \<and> SmtcSetTimelineProperties quiet_env 10000 0 (- 5000) running_state = Return 0 ?s'
     \<and> sint (to_TimeSpan 10000) = sint (10000 :: 64 word) * 10000
     \<and> sint (to_TimeSpan 0) = sint (0 :: 64 word) * 10000"
    using pre range
      C7_seek_range_is_start_end [of quiet_env 10000 0 "- 5000" running_state 0 ?s'
        "the (g_smtc running_state)"]
    unfolding ticks by blast
  then show ?thesis by blast
qed

subsection \<open>Buttons\<close>

text \<open>
  Claim C8. For a button value outside the seven wired ones the setter is meant to fail
  hard, returning an error and recording "Unknown button type", and the getter to answer
  0 and record nothing.

  The getter does so. The setter does not return: its \<open>default\<close> branch (line 474) calls
  \<open>SetError\<close> with \<open>g_mutex\<close> held, the defect of claim C1.
\<close>

theorem C8_unknown_button:
  assumes "buttonType \<notin> {SMTC_BUTTON_PLAY, SMTC_BUTTON_PAUSE, SMTC_BUTTON_STOP,
              SMTC_BUTTON_NEXT, SMTC_BUTTON_PREVIOUS, SMTC_BUTTON_FAST_FORWARD,
              SMTC_BUTTON_REWIND}"
    and "g_initialized s" "\<not> g_mutex s" "g_smtc s = Some c"
  shows "SmtcSetButtonEnabled env buttonType enabled s = Blocked
       \<and> SmtcIsButtonEnabled env buttonType s = Return 0 s"
  using assms
  by (simp add: SmtcSetButtonEnabled_def SmtcIsButtonEnabled_def lock_guard_def
      SetError_holding_lock unlock_free Let_def)

theorem C8_unknown_button_witness:
  "SmtcSetButtonEnabled quiet_env SMTC_BUTTON_RECORD 1 running_state = Blocked
   \<and> SmtcIsButtonEnabled quiet_env SMTC_BUTTON_RECORD running_state = Return 0 running_state"
proof -
  have h1: "SMTC_BUTTON_RECORD \<notin> {SMTC_BUTTON_PLAY, SMTC_BUTTON_PAUSE, SMTC_BUTTON_STOP,
              SMTC_BUTTON_NEXT, SMTC_BUTTON_PREVIOUS, SMTC_BUTTON_FAST_FORWARD,
              SMTC_BUTTON_REWIND}"
    by (simp add: smtc_enum_defs)
  have h2: "g_initialized running_state" and h3: "\<not> g_mutex running_state"
    and h4: "g_smtc running_state = Some (the (g_smtc running_state))"
    by (simp_all add: running_state_def)
  show ?thesis by (rule C8_unknown_button [OF h1 h2 h3 h4])
qed

text \<open>
  Claim C9. The handler of the native button event calls the registered callback once,
  with the public value of the button, for each of the seven buttons it lists (0, 1, 2,
  4, 5, 6 and 7 of \<open>SmtcButtonType\<close>); for any other native identifier, and when no
  callback is registered, it calls nothing. In no case does it change the state, the
  error string included.
\<close>

theorem C9_button_relay:
  "ButtonPressed_handler (Button_Other n) s = Return [] s
   \<and> (g_buttonCallback s = None \<longrightarrow> ButtonPressed_handler button s = Return [] s)
   \<and> (g_buttonCallback s = Some callback \<longrightarrow>
        ButtonPressed_handler Button_Play s = Return [(callback, 0)] s
      \<and> ButtonPressed_handler Button_Pause s = Return [(callback, 1)] s
      \<and> ButtonPressed_handler Button_Stop s = Return [(callback, 2)] s
      \<and> ButtonPressed_handler Button_FastForward s = Return [(callback, 4)] s
      \<and> ButtonPressed_handler Button_Rewind s = Return [(callback, 5)] s
      \<and> ButtonPressed_handler Button_Next s = Return [(callback, 6)] s
      \<and> ButtonPressed_handler Button_Previous s = Return [(callback, 7)] s)"
  by (simp add: ButtonPressed_handler_def smtc_enum_defs split: option.splits)

theorem C9_button_relay_witness:
  "ButtonPressed_handler (Button_Other 3) playing_state = Return [] playing_state
   \<and> ButtonPressed_handler Button_Next running_state = Return [] running_state
   \<and> ButtonPressed_handler Button_Play playing_state = Return [(4096, 0)] playing_state
   \<and> ButtonPressed_handler Button_Pause playing_state = Return [(4096, 1)] playing_state
   \<and> ButtonPressed_handler Button_Stop playing_state = Return [(4096, 2)] playing_state
   \<and> ButtonPressed_handler Button_FastForward playing_state = Return [(4096, 4)] playing_state
   \<and> ButtonPressed_handler Button_Rewind playing_state = Return [(4096, 5)] playing_state
   \<and> ButtonPressed_handler Button_Next playing_state = Return [(4096, 6)] playing_state
   \<and> ButtonPressed_handler Button_Previous playing_state = Return [(4096, 7)] playing_state"
proof -
  have none: "g_buttonCallback running_state = None"
    by (simp add: running_state_def)
  have some: "g_buttonCallback playing_state = Some 4096"
    by (simp add: playing_state_def running_state_def)
  from none some
    C9_button_relay [of 3 playing_state Button_Next 4096]
    C9_button_relay [of 3 running_state Button_Next 4096]
  show ?thesis by simp
qed

subsection \<open>Playback status\<close>

text \<open>
  Claim C10. A status argument outside 0..4 is not rejected: in the initialized state
  \<open>SmtcSetPlaybackStatus\<close> returns 0 and sets the native playback status to \<open>Stopped\<close>,
  changing nothing else. The native setter is assumed not to throw.
\<close>

theorem C10_invalid_status_becomes_stopped:
  assumes range: "status < SMTC_PLAYBACK_CLOSED \<or> SMTC_PLAYBACK_CHANGING < status"
    and init: "g_initialized s" "\<not> g_mutex s" "g_smtc s = Some c"
    and ok: "throws env PlaybackStatus_put = None"
  shows "SmtcSetPlaybackStatus env status s =
           Return 0 (s\<lparr>g_smtc := Some (c\<lparr>PlaybackStatus := Status_Stopped\<rparr>)\<rparr>)"
proof -
  from range have other:
      "status \<noteq> 0" "status \<noteq> 1" "status \<noteq> 2" "status \<noteq> 3" "status \<noteq> 4"
    by (auto simp add: smtc_enum_defs)
  show ?thesis
    using init ok other
    by (cases s)
       (simp add: SmtcSetPlaybackStatus_def lock_guard_def native_def on_smtc_def
          smtc_enum_defs)
qed

theorem C10_invalid_status_becomes_stopped_witness:
  "SmtcSetPlaybackStatus quiet_env 5
     (running_state\<lparr>g_smtc := Some (the (g_smtc running_state)\<lparr>PlaybackStatus := Status_Playing\<rparr>)\<rparr>)
   = Return 0
       (running_state\<lparr>g_smtc := Some (the (g_smtc running_state)\<lparr>PlaybackStatus := Status_Stopped\<rparr>)\<rparr>)
   \<and> SmtcSetPlaybackStatus quiet_env (- 1)
     (running_state\<lparr>g_smtc := Some (the (g_smtc running_state)\<lparr>PlaybackStatus := Status_Playing\<rparr>)\<rparr>)
   = Return 0
       (running_state\<lparr>g_smtc := Some (the (g_smtc running_state)\<lparr>PlaybackStatus := Status_Stopped\<rparr>)\<rparr>)"
proof -
  let ?s = "running_state\<lparr>g_smtc :=
              Some (the (g_smtc running_state)\<lparr>PlaybackStatus := Status_Playing\<rparr>)\<rparr>"
  let ?c = "the (g_smtc running_state)\<lparr>PlaybackStatus := Status_Playing\<rparr>"
  have above: "5 < SMTC_PLAYBACK_CLOSED \<or> SMTC_PLAYBACK_CHANGING < 5"
    and below: "- 1 < SMTC_PLAYBACK_CLOSED \<or> SMTC_PLAYBACK_CHANGING < - 1"
    by (simp_all add: smtc_enum_defs)
  have h2: "g_initialized ?s" and h3: "\<not> g_mutex ?s" and h4: "g_smtc ?s = Some ?c"
    by (simp_all add: running_state_def)
  have h5: "throws quiet_env PlaybackStatus_put = None"
    by (simp add: quiet_env_def)
  from C10_invalid_status_becomes_stopped [OF above h2 h3 h4 h5]
       C10_invalid_status_becomes_stopped [OF below h2 h3 h4 h5]
  show ?thesis by simp
qed

end
